theory Spec2Isabelle
  imports Main
begin

section \<open>Values of the host language\<close>

text \<open>
  The strategy handles values typed \<open>any\<close>: the decoded client data, the \<open>err\<close> and
  \<open>info\<close> arguments of a completion callback, thrown exceptions and the verifier's
  answer. They are modelled by the JSON-shaped values below. A number is carried as its
  canonical rendering (what \<open>Number.prototype.toString\<close> gives), an object as the list of
  its own properties, the first binding of a key being the one that counts.
\<close>

datatype jsval =
    JUndefined
  | JNull
  | JBool bool
  | JNum string
  | JStr string
  | JArr "jsval list"
  | JObj "(string \<times> jsval) list"

text \<open>Truthiness, as \<open>if (x)\<close> and \<open>!x\<close> test it.\<close>

fun truthy :: "jsval \<Rightarrow> bool" where
  "truthy JUndefined = False"
| "truthy JNull = False"
| "truthy (JBool b) = b"
| "truthy (JNum s) = (s \<noteq> ''0'' \<and> s \<noteq> ''NaN'')"
| "truthy (JStr s) = (s \<noteq> [])"
| "truthy (JArr xs) = True"
| "truthy (JObj kvs) = True"

text \<open>
  Reading the property \<open>type\<close> of a value (\<open>clientData.type\<close>): a \<open>TypeError\<close> on
  \<open>undefined\<close> and \<open>null\<close>, the own property of an object, \<open>undefined\<close> when it is
  absent and on every other value.
\<close>

definition typeError :: "string \<Rightarrow> jsval" where
  "typeError msg = JObj [(''name'', JStr ''TypeError''), (''message'', JStr msg)]"

fun get_type :: "jsval \<Rightarrow> jsval + jsval" where
  "get_type JUndefined = Inl (typeError ''Cannot read properties of undefined (reading 'type')'')"
| "get_type JNull = Inl (typeError ''Cannot read properties of null (reading 'type')'')"
| "get_type (JObj kvs) = Inr (case map_of kvs ''type'' of None \<Rightarrow> JUndefined | Some v \<Rightarrow> v)"
| "get_type v = Inr JUndefined"

text \<open>
  The string conversion that \<open>'...' + x\<close> applies to \<open>x\<close>. An array is joined with
  commas, \<open>undefined\<close> and \<open>null\<close> elements counting as empty. A decoded object has no
  callable property, so one with an own \<open>toString\<close> key has no primitive value and the
  conversion throws (\<open>None\<close>); any other object is \<open>[object Object]\<close>.
\<close>

fun join_comma :: "string list \<Rightarrow> string" where
  "join_comma [] = []"
| "join_comma [s] = s"
| "join_comma (s # t # ss) = s @ '','' @ join_comma (t # ss)"

fun those_strings :: "string option list \<Rightarrow> string list option" where
  "those_strings [] = Some []"
| "those_strings (None # xs) = None"
| "those_strings (Some s # xs) = (case those_strings xs of None \<Rightarrow> None | Some ss \<Rightarrow> Some (s # ss))"

fun toStringJS :: "jsval \<Rightarrow> string option" where
  "toStringJS JUndefined = Some ''undefined''"
| "toStringJS JNull = Some ''null''"
| "toStringJS (JBool b) = Some (if b then ''true'' else ''false'')"
| "toStringJS (JNum s) = Some s"
| "toStringJS (JStr s) = Some s"
| "toStringJS (JArr xs) =
     (case those_strings
             (map (\<lambda>x. if x = JUndefined \<or> x = JNull then Some [] else toStringJS x) xs) of
        None \<Rightarrow> None
      | Some ss \<Rightarrow> Some (join_comma ss))"
| "toStringJS (JObj kvs) =
     (if ''toString'' \<in> fst ` set kvs then None else Some ''[object Object]'')"

text \<open>The object literal \<open>{ message: m }\<close>.\<close>

definition message :: "string \<Rightarrow> jsval" where
  "message m = JObj [(''message'', JStr m)]"

section \<open>Data model\<close>

text \<open>\<open>User extends { id: string }\<close>: the identifier and the user's other properties.\<close>

record user =
  user_id :: string
  user_props :: "(string \<times> jsval) list"

datatype credential_device_type = SingleDevice | MultiDevice

record registration_info =
  counter :: nat
  credentialID :: "nat list"
  credentialPublicKey :: "nat list"
  userVerified :: bool
  credentialDeviceType :: credential_device_type
  credentialBackedUp :: bool

record session_data =
  challenge :: string
  session_user :: "user option"

text \<open>
  Modelled from the spec: \<open>AuthenticatorDevice\<close> is declared in the typings package of the
  verification library; the spec's data model gives it the credential id, the public key
  and the signature counter.
\<close>

record authenticator_device =
  device_credentialID :: "nat list"
  device_credentialPublicKey :: "nat list"
  device_counter :: nat

record user_with_authenticator =
  pairing_user :: user
  authenticator :: authenticator_device

text \<open>
  The request: \<open>body.id\<close>, \<open>body.response.clientDataJSON\<close>, \<open>body.response.userHandle\<close>
  (optional), \<open>headers.origin\<close> (optional) and \<open>hostname\<close>.
\<close>

record request =
  body_id :: string
  clientDataJSON :: string
  userHandle :: "string option"
  headers_origin :: "string option"
  hostname :: string

record strategy_options =
  expectedRPID :: string
  expectedOrigin :: "string option"
  supportedAlgorithmIDs :: "int list option"
  requireUserVerification :: "bool option"

section \<open>Collaborators\<close>

text \<open>What awaiting a call gives: a value, an exception (thrown or rejected), or nothing ever.\<close>

datatype 'a awaited = Resolves 'a | Rejects jsval | Never

text \<open>One invocation \<open>conclude(err, result, info)\<close> of a completion callback.\<close>

datatype 'r conclusion = Conclude jsval "'r option" jsval

text \<open>
  A developer function. \<open>fn_length\<close> is its declared parameter count. \<open>fn_direct\<close> is what
  awaiting \<open>f(req, a, b)\<close> gives. \<open>fn_callback\<close> is what \<open>f(req, a, b, conclude)\<close> does: the
  invocations of \<open>conclude\<close> it makes, in order, and the exception it throws to its
  caller, if any (its return value is dropped by the strategy).
\<close>

record ('a, 'r) developer_fn =
  fn_length :: nat
  fn_direct :: "request \<Rightarrow> 'a \<Rightarrow> 'r option awaited"
  fn_callback :: "request \<Rightarrow> 'a \<Rightarrow> 'r conclusion list \<times> jsval option"

record verify_registration_opts =
  reg_response :: request
  reg_expectedChallenge :: string
  reg_expectedOrigin :: string
  reg_expectedRPID :: string
  reg_supportedAlgorithmIDs :: "int list option"
  reg_requireUserVerification :: "bool option"

record verify_authentication_opts =
  auth_authenticator :: authenticator_device
  auth_response :: request
  auth_expectedChallenge :: string
  auth_expectedOrigin :: string
  auth_expectedRPID :: string
  auth_requireUserVerification :: "bool option"

text \<open>
  The libraries the strategy calls. \<open>parseClientData s\<close> stands for
  \<open>JSON.parse(Buffer.from(s, 'base64url').toString())\<close>, \<open>Inl\<close> being the exception it
  throws. The registration verifier answers with an optional \<open>registrationInfo\<close>.
\<close>

record runtime =
  parseClientData :: "string \<Rightarrow> jsval + jsval"
  verifyRegistrationResponse :: "verify_registration_opts \<Rightarrow> registration_info option awaited"
  verifyAuthenticationResponse :: "verify_authentication_opts \<Rightarrow> jsval awaited"

record strategy =
  options :: strategy_options
  extractor :: "request \<Rightarrow> session_data"
  authenticationFn :: "(string \<times> string, user_with_authenticator) developer_fn"
  registrationFn :: "(user \<times> registration_info, user) developer_fn"

section \<open>Observable behaviour\<close>

text \<open>
  The terminal signals of the framework: \<open>success(user, info)\<close>, \<open>fail(info, status)\<close> and
  \<open>error(err)\<close>. An omitted \<open>info\<close> is \<open>undefined\<close>, an omitted status is \<open>None\<close>.
\<close>

datatype signal =
    Success user jsval
  | Fail jsval "nat option"
  | Error jsval

text \<open>
  What one run does, in order: calls of the verifier, calls of the developer functions
  (the flag says whether \<open>conclude\<close> was passed), \<open>console.error\<close>, terminal signals.
\<close>

datatype event =
    VerifyRegistration verify_registration_opts
  | VerifyAuthentication verify_authentication_opts
  | CallRegistrationFn user registration_info bool
  | CallAuthenticationFn string string bool
  | ConsoleError jsval
  | Signal signal

text \<open>How the promise returned by \<open>authenticate\<close> ends.\<close>

datatype outcome = Resolved | Rejected jsval | Pending

type_synonym run = "event list \<times> outcome"

section \<open>The strategy\<close>

text \<open>\<open>options.expectedOrigin ?? req.headers.origin ?? req.hostname\<close>\<close>

definition expected_origin :: "strategy_options \<Rightarrow> request \<Rightarrow> string" where
  "expected_origin opts req =
     (case expectedOrigin opts of
        Some origin \<Rightarrow> origin
      | None \<Rightarrow> (case headers_origin req of Some origin \<Rightarrow> origin | None \<Rightarrow> hostname req))"

definition registration_opts :: "strategy \<Rightarrow> request \<Rightarrow> string \<Rightarrow> verify_registration_opts" where
  "registration_opts st req chal =
     \<lparr> reg_response = req,
       reg_expectedChallenge = chal,
       reg_expectedOrigin = expected_origin (options st) req,
       reg_expectedRPID = expectedRPID (options st),
       reg_supportedAlgorithmIDs = supportedAlgorithmIDs (options st),
       reg_requireUserVerification = requireUserVerification (options st) \<rparr>"

definition authentication_opts ::
  "strategy \<Rightarrow> request \<Rightarrow> string \<Rightarrow> authenticator_device \<Rightarrow> verify_authentication_opts" where
  "authentication_opts st req chal dev =
     \<lparr> auth_authenticator = dev,
       auth_response = req,
       auth_expectedChallenge = chal,
       auth_expectedOrigin = expected_origin (options st) req,
       auth_expectedRPID = expectedRPID (options st),
       auth_requireUserVerification = requireUserVerification (options st) \<rparr>"

text \<open>\<open>concludeRegistration(err, user, info)\<close>\<close>

fun concludeRegistration :: "user conclusion \<Rightarrow> event list" where
  "concludeRegistration (Conclude err usr info) =
     (if truthy err then [Signal (Error err)]
      else case usr of
             None \<Rightarrow> [Signal (Fail info None)]
           | Some u \<Rightarrow> [Signal (Success u info)])"

text \<open>The registration branch, entered when the client data's type is \<open>webauthn.create\<close>.\<close>

definition registration :: "runtime \<Rightarrow> strategy \<Rightarrow> request \<Rightarrow> session_data \<Rightarrow> run" where
  "registration rt st req sd =
     (case session_user sd of
        None \<Rightarrow> ([Signal (Fail (message ''User not in session'') (Some 404))], Resolved)
      | Some u \<Rightarrow>
          let vo = registration_opts st req (challenge sd) in
          (case verifyRegistrationResponse rt vo of
             Never \<Rightarrow> ([VerifyRegistration vo], Pending)
           | Rejects e \<Rightarrow> ([VerifyRegistration vo], Rejected e)
           | Resolves None \<Rightarrow>
               ([VerifyRegistration vo,
                 Signal (Fail (message ''Registration failed.'') (Some 500))], Resolved)
           | Resolves (Some ri) \<Rightarrow>
               if fn_length (registrationFn st) < 4 then
                 (case fn_direct (registrationFn st) req (u, ri) of
                    Never \<Rightarrow> ([VerifyRegistration vo, CallRegistrationFn u ri False], Pending)
                  | Rejects e \<Rightarrow>
                      ([VerifyRegistration vo, CallRegistrationFn u ri False,
                        Signal (Error e)], Resolved)
                  | Resolves None \<Rightarrow>
                      ([VerifyRegistration vo, CallRegistrationFn u ri False,
                        Signal (Fail (message ''User not found'') (Some 404))], Resolved)
                  | Resolves (Some newUser) \<Rightarrow>
                      ([VerifyRegistration vo, CallRegistrationFn u ri False,
                        Signal (Success newUser JUndefined)], Resolved))
               else
                 (case fn_callback (registrationFn st) req (u, ri) of
                    (calls, thrown) \<Rightarrow>
                      ([VerifyRegistration vo, CallRegistrationFn u ri True]
                         @ concat (map concludeRegistration calls),
                       case thrown of None \<Rightarrow> Resolved | Some e \<Rightarrow> Rejected e))))"

text \<open>
  \<open>concludeAuthentication(err, userWithAuthenticator, info)\<close> is an async function
  whose promise is dropped by whoever calls it, so only its events count. It runs in two
  parts. The first runs at once, when the completion callback is invoked, and stops at the
  \<open>await\<close> of the verifier, whose call it has made.
\<close>

fun concludeAuthentication_start ::
  "strategy \<Rightarrow> request \<Rightarrow> string \<Rightarrow> user_with_authenticator conclusion \<Rightarrow> event list" where
  "concludeAuthentication_start st req chal (Conclude err uwa info) =
     (if truthy err then [Signal (Error err)]
      else case uwa of
             None \<Rightarrow> [Signal (Fail info None)]
           | Some p \<Rightarrow> [VerifyAuthentication (authentication_opts st req chal (authenticator p))])"

text \<open>
  The second part runs when the verifier has answered; a verifier that never answers
  leaves the completion without a signal.
\<close>

fun concludeAuthentication_resume ::
  "runtime \<Rightarrow> strategy \<Rightarrow> request \<Rightarrow> string \<Rightarrow> user_with_authenticator conclusion \<Rightarrow> event list" where
  "concludeAuthentication_resume rt st req chal (Conclude err uwa info) =
     (if truthy err then []
      else case uwa of
             None \<Rightarrow> []
           | Some p \<Rightarrow>
               (case verifyAuthenticationResponse rt
                       (authentication_opts st req chal (authenticator p)) of
                  Never \<Rightarrow> []
                | Rejects e \<Rightarrow> [ConsoleError e, Signal (Error e)]
                | Resolves v \<Rightarrow>
                    if \<not> truthy v then
                      [Signal (Fail (message ''Authenticator verification failed'') (Some 400))]
                    else [Signal (Success (pairing_user p) info)]))"

text \<open>One completion on its own: both parts, one after the other.\<close>

definition concludeAuthentication ::
  "runtime \<Rightarrow> strategy \<Rightarrow> request \<Rightarrow> string \<Rightarrow> user_with_authenticator conclusion \<Rightarrow> event list" where
  "concludeAuthentication rt st req chal c =
     concludeAuthentication_start st req chal c @ concludeAuthentication_resume rt st req chal c"

text \<open>
  The authentication branch, entered when the client data's type is \<open>webauthn.get\<close>.
  With a lookup function of 4 or more parameters, the completions are the ones the
  function makes before the verifier has answered any of them: each is started when it
  is made, and each is resumed afterwards, when the verifier answers, in the order of the
  verifier's calls. A completion started after an earlier one may so signal before it.
\<close>

definition authentication :: "runtime \<Rightarrow> strategy \<Rightarrow> request \<Rightarrow> session_data \<Rightarrow> run" where
  "authentication rt st req sd =
     (case userHandle req of
        None \<Rightarrow> ([Signal (Fail (message ''User handle not present'') (Some 400))], Resolved)
      | Some h \<Rightarrow>
          if (case session_user sd of None \<Rightarrow> False | Some u \<Rightarrow> h \<noteq> [] \<and> user_id u \<noteq> h) then
            ([Signal (Fail (message ''User handle does not match session'') (Some 400))], Resolved)
          else if h = [] then
            ([Signal (Fail (message ''User handle not present'') (Some 400))], Resolved)
          else
            let ident = (case session_user sd of Some u \<Rightarrow> user_id u | None \<Rightarrow> h) in
            if fn_length (authenticationFn st) < 4 then
              (case fn_direct (authenticationFn st) req (body_id req, ident) of
                 Never \<Rightarrow> ([CallAuthenticationFn (body_id req) ident False], Pending)
               | Rejects e \<Rightarrow>
                   ([CallAuthenticationFn (body_id req) ident False, Signal (Error e)], Resolved)
               | Resolves None \<Rightarrow>
                   ([CallAuthenticationFn (body_id req) ident False,
                     Signal (Fail (message ''Invelid credential'') (Some 400))], Resolved)
               | Resolves (Some p) \<Rightarrow>
                   let vo = authentication_opts st req (challenge sd) (authenticator p) in
                   (case verifyAuthenticationResponse rt vo of
                      Never \<Rightarrow>
                        ([CallAuthenticationFn (body_id req) ident False,
                          VerifyAuthentication vo], Pending)
                    | Rejects e \<Rightarrow>
                        ([CallAuthenticationFn (body_id req) ident False,
                          VerifyAuthentication vo, Signal (Error e)], Resolved)
                    | Resolves v \<Rightarrow>
                        if \<not> truthy v then
                          ([CallAuthenticationFn (body_id req) ident False,
                            VerifyAuthentication vo,
                            Signal (Fail (message ''Authenticator verification failed'')
                                      (Some 400))], Resolved)
                        else
                          ([CallAuthenticationFn (body_id req) ident False,
                            VerifyAuthentication vo,
                            Signal (Success (pairing_user p) JUndefined)], Resolved)))
            else
              (case fn_callback (authenticationFn st) req (body_id req, ident) of
                 (calls, thrown) \<Rightarrow>
                   (CallAuthenticationFn (body_id req) ident True
                      # concat (map (concludeAuthentication_start st req (challenge sd)) calls)
                      @ concat (map (concludeAuthentication_resume rt st req (challenge sd)) calls),
                    case thrown of None \<Rightarrow> Resolved | Some e \<Rightarrow> Rejected e)))"

text \<open>The unsupported branch: \<open>'Unsupported response type: ' + clientData.type\<close>.\<close>

definition unsupported :: "jsval \<Rightarrow> run" where
  "unsupported ty =
     (case toStringJS ty of
        None \<Rightarrow> ([], Rejected (typeError ''Cannot convert object to primitive value''))
      | Some s \<Rightarrow>
          ([Signal (Fail (message (''Unsupported response type: '' @ s)) (Some 400))], Resolved))"

text \<open>\<open>Strategy.authenticate(req)\<close>\<close>

definition authenticate :: "runtime \<Rightarrow> strategy \<Rightarrow> request \<Rightarrow> run" where
  "authenticate rt st req =
     (let sd = extractor st req in
      case parseClientData rt (clientDataJSON req) of
        Inl e \<Rightarrow> ([], Rejected e)
      | Inr clientData \<Rightarrow>
          (case get_type clientData of
             Inl e \<Rightarrow> ([], Rejected e)
           | Inr ty \<Rightarrow>
               if ty = JStr ''webauthn.create'' then registration rt st req sd
               else if ty = JStr ''webauthn.get'' then authentication rt st req sd
               else unsupported ty))"

text \<open>The terminal signals of a run, in order.\<close>

fun signals :: "event list \<Rightarrow> signal list" where
  "signals [] = []"
| "signals (Signal s # es) = s # signals es"
| "signals (e # es) = signals es"

section \<open>Sample collaborators and requests\<close>

text \<open>
  A decoder that knows the encodings of \<open>{"type":"webauthn.create"}\<close>,
  \<open>{"type":"webauthn.get"}\<close>, \<open>{"type":"webauthn.other"}\<close>, \<open>{"type":{"toString":1}}\<close>
  and \<open>null\<close>, and throws a \<open>SyntaxError\<close> on anything else.
\<close>

definition syntaxError :: jsval where
  "syntaxError = JObj [(''name'', JStr ''SyntaxError''), (''message'', JStr ''Unexpected token'')]"

definition sample_parse :: "string \<Rightarrow> jsval + jsval" where
  "sample_parse s =
     (if s = ''eyJ0eXBlIjoid2ViYXV0aG4uY3JlYXRlIn0'' then Inr (JObj [(''type'', JStr ''webauthn.create'')])
      else if s = ''eyJ0eXBlIjoid2ViYXV0aG4uZ2V0In0'' then Inr (JObj [(''type'', JStr ''webauthn.get'')])
      else if s = ''eyJ0eXBlIjoid2ViYXV0aG4ub3RoZXIifQ'' then Inr (JObj [(''type'', JStr ''webauthn.other'')])
      else if s = ''eyJ0eXBlIjp7InRvU3RyaW5nIjoxfX0'' then
        Inr (JObj [(''type'', JObj [(''toString'', JNum ''1'')])])
      else if s = ''bnVsbA'' then Inr JNull
      else Inl syntaxError)"

definition alice :: user where
  "alice = \<lparr> user_id = ''u1'', user_props = [(''username'', JStr ''alice'')] \<rparr>"

definition bob :: user where
  "bob = \<lparr> user_id = ''u2'', user_props = [(''username'', JStr ''bob'')] \<rparr>"

definition sample_info :: registration_info where
  "sample_info =
     \<lparr> counter = 0, credentialID = [1, 2, 3], credentialPublicKey = [4, 5, 6],
       userVerified = True, credentialDeviceType = SingleDevice, credentialBackedUp = False \<rparr>"

definition sample_device :: authenticator_device where
  "sample_device =
     \<lparr> device_credentialID = [1, 2, 3], device_credentialPublicKey = [4, 5, 6],
       device_counter = 7 \<rparr>"

definition sample_pairing :: user_with_authenticator where
  "sample_pairing = \<lparr> pairing_user = bob, authenticator = sample_device \<rparr>"

definition verifier_failure :: jsval where
  "verifier_failure = JObj [(''message'', JStr ''Unexpected authentication response challenge'')]"

definition db_down :: jsval where
  "db_down = JObj [(''message'', JStr ''db down'')]"

definition greeting :: jsval where
  "greeting = JObj [(''message'', JStr ''welcome'')]"

definition rt_accepting :: runtime where
  "rt_accepting =
     \<lparr> parseClientData = sample_parse,
       verifyRegistrationResponse = (\<lambda>vo. Resolves (Some sample_info)),
       verifyAuthenticationResponse = (\<lambda>vo. Resolves (JObj [(''verified'', JBool True)])) \<rparr>"

definition rt_throwing :: runtime where
  "rt_throwing =
     \<lparr> parseClientData = sample_parse,
       verifyRegistrationResponse = (\<lambda>vo. Rejects verifier_failure),
       verifyAuthenticationResponse = (\<lambda>vo. Rejects verifier_failure) \<rparr>"

definition sample_options :: strategy_options where
  "sample_options =
     \<lparr> expectedRPID = ''localhost'', expectedOrigin = None, supportedAlgorithmIDs = None,
       requireUserVerification = Some False \<rparr>"

text \<open>Developer functions of three parameters: the resolved value is what counts.\<close>

definition register_direct :: "user option awaited \<Rightarrow> (user \<times> registration_info, user) developer_fn" where
  "register_direct r =
     \<lparr> fn_length = 3, fn_direct = (\<lambda>req a. r), fn_callback = (\<lambda>req a. ([], None)) \<rparr>"

definition login_direct ::
  "user_with_authenticator option awaited \<Rightarrow> (string \<times> string, user_with_authenticator) developer_fn" where
  "login_direct r =
     \<lparr> fn_length = 3, fn_direct = (\<lambda>req a. r), fn_callback = (\<lambda>req a. ([], None)) \<rparr>"

text \<open>Developer functions of four parameters: the invocations of \<open>conclude\<close> are what counts.\<close>

definition register_callback :: "user conclusion list \<Rightarrow> (user \<times> registration_info, user) developer_fn" where
  "register_callback cs =
     \<lparr> fn_length = 4, fn_direct = (\<lambda>req a. Resolves None), fn_callback = (\<lambda>req a. (cs, None)) \<rparr>"

definition login_callback ::
  "user_with_authenticator conclusion list \<Rightarrow> (string \<times> string, user_with_authenticator) developer_fn" where
  "login_callback cs =
     \<lparr> fn_length = 4, fn_direct = (\<lambda>req a. Resolves None), fn_callback = (\<lambda>req a. (cs, None)) \<rparr>"

definition strategy_with ::
  "user option \<Rightarrow> (string \<times> string, user_with_authenticator) developer_fn \<Rightarrow>
   (user \<times> registration_info, user) developer_fn \<Rightarrow> strategy" where
  "strategy_with su login register =
     \<lparr> options = sample_options,
       extractor = (\<lambda>req. \<lparr> challenge = ''c1'', session_user = su \<rparr>),
       authenticationFn = login,
       registrationFn = register \<rparr>"

definition st_direct :: "user option \<Rightarrow> strategy" where
  "st_direct su =
     strategy_with su (login_direct (Resolves (Some sample_pairing)))
       (register_direct (Resolves (Some alice)))"

definition st_callback :: "user option \<Rightarrow> strategy" where
  "st_callback su =
     strategy_with su (login_callback [Conclude JUndefined (Some sample_pairing) greeting])
       (register_callback [Conclude JUndefined (Some alice) greeting])"

definition request_with :: "string \<Rightarrow> string option \<Rightarrow> request" where
  "request_with cdj h =
     \<lparr> body_id = ''AQID'', clientDataJSON = cdj, userHandle = h,
       headers_origin = Some ''https://localhost'', hostname = ''localhost'' \<rparr>"

definition req_create :: request where
  "req_create = request_with ''eyJ0eXBlIjoid2ViYXV0aG4uY3JlYXRlIn0'' None"

definition req_get :: "string option \<Rightarrow> request" where
  "req_get h = request_with ''eyJ0eXBlIjoid2ViYXV0aG4uZ2V0In0'' h"

definition req_other :: request where
  "req_other = request_with ''eyJ0eXBlIjoid2ViYXV0aG4ub3RoZXIifQ'' None"

definition req_malformed :: request where
  "req_malformed = request_with ''bm90IGpzb24'' None"

definition req_object_type :: request where
  "req_object_type = request_with ''eyJ0eXBlIjp7InRvU3RyaW5nIjoxfX0'' None"

definition st_overlapping :: strategy where
  "st_overlapping =
     strategy_with None
       (login_callback [Conclude JUndefined (Some sample_pairing) greeting,
                        Conclude db_down None JUndefined])
       (register_callback [])"

definition st_twice :: strategy where
  "st_twice =
     strategy_with (Some alice) (login_callback [])
       (register_callback [Conclude JUndefined (Some alice) greeting, Conclude db_down None JUndefined])"

definition st_incomplete :: strategy where
  "st_incomplete =
     strategy_with (Some alice) (login_callback [Conclude JUndefined None JUndefined])
       (register_callback [Conclude JUndefined None JUndefined])"

section \<open>What the specification asks of a recoverable failure\<close>

text \<open>
  A failure carries a human-readable message when its \<open>info\<close> is an object whose
  \<open>message\<close> is a non-empty string, and a status hint when the status is 400, 404 or 500.
\<close>

fun has_message :: "jsval \<Rightarrow> bool" where
  "has_message (JObj kvs) = (case map_of kvs ''message'' of Some (JStr m) \<Rightarrow> m \<noteq> [] | _ \<Rightarrow> False)"
| "has_message v = False"

definition has_message_and_hint :: "jsval \<Rightarrow> nat option \<Rightarrow> bool" where
  "has_message_and_hint info status =
     (has_message info \<and> status \<in> {Some 400, Some 404, Some 500})"

lemmas sample_defs =
  sample_parse_def syntaxError_def alice_def bob_def sample_info_def sample_device_def
  sample_pairing_def verifier_failure_def db_down_def greeting_def rt_accepting_def
  rt_throwing_def sample_options_def register_direct_def login_direct_def
  register_callback_def login_callback_def strategy_with_def st_direct_def st_callback_def
  request_with_def req_create_def req_get_def req_other_def req_malformed_def
  st_twice_def st_incomplete_def req_object_type_def st_overlapping_def

section \<open>Basic facts\<close>

lemma signals_append: "signals (xs @ ys) = signals xs @ signals ys"
  by (induction xs rule: signals.induct) simp_all

section \<open>Classification and the guards of each branch\<close>

lemmas strategy_defs =
  authenticate_def registration_def authentication_def unsupported_def concludeAuthentication_def
  registration_opts_def authentication_opts_def expected_origin_def

lemma authenticate_create:
  assumes "parseClientData rt (clientDataJSON req) = Inr clientData"
    and "get_type clientData = Inr (JStr ''webauthn.create'')"
  shows "authenticate rt st req = registration rt st req (extractor st req)"
  using assms by (simp add: authenticate_def)

lemma authenticate_get:
  assumes "parseClientData rt (clientDataJSON req) = Inr clientData"
    and "get_type clientData = Inr (JStr ''webauthn.get'')"
  shows "authenticate rt st req = authentication rt st req (extractor st req)"
  using assms by (simp add: authenticate_def)

lemma authenticate_other:
  assumes "parseClientData rt (clientDataJSON req) = Inr clientData"
    and "get_type clientData = Inr ty"
    and "ty \<noteq> JStr ''webauthn.create''" and "ty \<noteq> JStr ''webauthn.get''"
  shows "authenticate rt st req = unsupported ty"
  using assms by (simp add: authenticate_def)

lemma sample_parse_create:
  "parseClientData rt_accepting (clientDataJSON req_create)
     = Inr (JObj [(''type'', JStr ''webauthn.create'')])"
  by (simp add: sample_defs)

lemma sample_parse_get:
  "parseClientData rt_accepting (clientDataJSON (req_get h))
     = Inr (JObj [(''type'', JStr ''webauthn.get'')])"
  by (simp add: sample_defs)

lemma sample_parse_other:
  "parseClientData rt_accepting (clientDataJSON req_other)
     = Inr (JObj [(''type'', JStr ''webauthn.other'')])"
  by (simp add: sample_defs)

text \<open>
  C9. A registration ceremony (client data of type \<open>webauthn.create\<close>) whose session
  context has no user ends with the recoverable failure \<open>User not in session\<close>, status
  hint 404, whatever the rest of the payload is. That signal is the whole run: neither
  the verifier nor the registration function is called.
\<close>

theorem registration_without_session_user:
  assumes "parseClientData rt (clientDataJSON req) = Inr clientData"
    and "get_type clientData = Inr (JStr ''webauthn.create'')"
    and "session_user (extractor st req) = None"
  shows "authenticate rt st req
           = ([Signal (Fail (message ''User not in session'') (Some 404))], Resolved)"
  using assms by (simp add: authenticate_create registration_def)

theorem registration_without_session_user_witness:
  "authenticate rt_accepting (st_direct None) req_create
     = ([Signal (Fail (message ''User not in session'') (Some 404))], Resolved)"
proof -
  have ty: "get_type (JObj [(''type'', JStr ''webauthn.create'')]) = Inr (JStr ''webauthn.create'')"
    by simp
  have su: "session_user (extractor (st_direct None) req_create) = None"
    by (simp add: sample_defs)
  show ?thesis
    by (rule registration_without_session_user [OF sample_parse_create ty su])
qed

text \<open>
  C10. An assertion (client data of type \<open>webauthn.get\<close>) whose \<open>userHandle\<close> is the
  empty string ends with the recoverable failure \<open>User handle not present\<close>, status hint
  400, and the lookup function is not called, even when the session has a user whose id
  differs from the handle: the empty string is falsy, so the comparison with the session
  user is skipped.
\<close>

theorem empty_user_handle_not_present:
  assumes "parseClientData rt (clientDataJSON req) = Inr clientData"
    and "get_type clientData = Inr (JStr ''webauthn.get'')"
    and "userHandle req = Some []"
  shows "authenticate rt st req
           = ([Signal (Fail (message ''User handle not present'') (Some 400))], Resolved)"
  using assms by (simp add: authenticate_get authentication_def split: option.splits)

theorem empty_user_handle_not_present_witness:
  "session_user (extractor (st_direct (Some alice)) (req_get (Some []))) = Some alice
   \<and> user_id alice \<noteq> []
   \<and> authenticate rt_accepting (st_direct (Some alice)) (req_get (Some []))
       = ([Signal (Fail (message ''User handle not present'') (Some 400))], Resolved)"
proof -
  have ty: "get_type (JObj [(''type'', JStr ''webauthn.get'')]) = Inr (JStr ''webauthn.get'')"
    by simp
  have uh: "userHandle (req_get (Some [])) = Some []"
    by (simp add: sample_defs)
  show ?thesis
    using empty_user_handle_not_present [OF sample_parse_get ty uh, of "st_direct (Some alice)"]
    by (simp add: sample_defs)
qed

text \<open>
  C3. An assertion whose session context has a user and whose response carries a user
  handle (a non-empty one: the code tests the handle for truthiness, see C10) different
  from the user's id ends with the recoverable failure
  \<open>User handle does not match session\<close>, status hint 400. That signal is the whole run:
  the lookup function is not called.
\<close>

theorem user_handle_mismatch:
  assumes "parseClientData rt (clientDataJSON req) = Inr clientData"
    and "get_type clientData = Inr (JStr ''webauthn.get'')"
    and "session_user (extractor st req) = Some u"
    and "userHandle req = Some h"
    and "h \<noteq> []"
    and "user_id u \<noteq> h"
  shows "authenticate rt st req
           = ([Signal (Fail (message ''User handle does not match session'') (Some 400))],
              Resolved)"
  using assms by (simp add: authenticate_get authentication_def)

theorem user_handle_mismatch_witness:
  "authenticate rt_accepting (st_direct (Some alice)) (req_get (Some ''u2''))
     = ([Signal (Fail (message ''User handle does not match session'') (Some 400))], Resolved)"
proof -
  have ty: "get_type (JObj [(''type'', JStr ''webauthn.get'')]) = Inr (JStr ''webauthn.get'')"
    by simp
  have su: "session_user (extractor (st_direct (Some alice)) (req_get (Some ''u2''))) = Some alice"
    by (simp add: sample_defs)
  have uh: "userHandle (req_get (Some ''u2'')) = Some ''u2''"
    by (simp add: sample_defs)
  have ne: "''u2'' \<noteq> ([] :: string)"
    by simp
  have df: "user_id alice \<noteq> ''u2''"
    by (simp add: sample_defs)
  show ?thesis
    by (rule user_handle_mismatch [OF sample_parse_get ty su uh ne df])
qed

text \<open>
  The unsupported branch, for a type field that has a string form \<open>s\<close> (the field itself
  when it is a string): the run is one recoverable failure with status hint 400 whose
  message is \<open>Unsupported response type: \<close> followed by \<open>s\<close>. No verifier and no
  developer function is called.
\<close>

lemma unsupported_type_fails:
  assumes "parseClientData rt (clientDataJSON req) = Inr clientData"
    and "get_type clientData = Inr ty"
    and "ty \<noteq> JStr ''webauthn.create''"
    and "ty \<noteq> JStr ''webauthn.get''"
    and "toStringJS ty = Some s"
  shows "authenticate rt st req
           = ([Signal (Fail (message (''Unsupported response type: '' @ s)) (Some 400))],
              Resolved)
         \<and> (\<forall>t. ty = JStr t \<longrightarrow> s = t)"
  using assms by (auto simp add: authenticate_other unsupported_def)

lemma unsupported_type_fails_sample:
  "authenticate rt_accepting (st_direct (Some alice)) req_other
     = ([Signal (Fail (message ''Unsupported response type: webauthn.other'') (Some 400))],
        Resolved)"
proof -
  have ty: "get_type (JObj [(''type'', JStr ''webauthn.other'')]) = Inr (JStr ''webauthn.other'')"
    by simp
  have n1: "JStr ''webauthn.other'' \<noteq> JStr ''webauthn.create''"
    by simp
  have n2: "JStr ''webauthn.other'' \<noteq> JStr ''webauthn.get''"
    by simp
  have str: "toStringJS (JStr ''webauthn.other'') = Some ''webauthn.other''"
    by simp
  show ?thesis
    using unsupported_type_fails [OF sample_parse_other ty n1 n2 str, of "st_direct (Some alice)"]
    by simp
qed

section \<open>The registration function's two calling conventions\<close>

text \<open>
  C1. On the registration path, once the verifier has answered with registration info,
  the registration function is dispatched on its declared parameter count. Below 4 it is
  called without a callback and awaited: no resulting user gives the recoverable failure
  \<open>User not found\<close> with status hint 404, a thrown or rejected error \<open>e\<close> gives the fatal
  error signal for \<open>e\<close>, and a resulting user gives the success signal with exactly that
  user. At 4 or more it is called with the completion callback, and each completion
  \<open>(err, user, info)\<close> gives the fatal error signal for a truthy \<open>err\<close>, else a
  recoverable failure carrying \<open>info\<close> when the user is missing, else the success signal
  with \<open>user\<close> and \<open>info\<close>.
\<close>

theorem registration_dual_invocation:
  assumes "parseClientData rt (clientDataJSON req) = Inr clientData"
    and "get_type clientData = Inr (JStr ''webauthn.create'')"
    and "session_user (extractor st req) = Some u"
    and "verifyRegistrationResponse rt (registration_opts st req (challenge (extractor st req)))
           = Resolves (Some ri)"
  shows "(fn_length (registrationFn st) < 4 \<longrightarrow>
            CallRegistrationFn u ri False \<in> set (fst (authenticate rt st req))
          \<and> (fn_direct (registrationFn st) req (u, ri) = Resolves None \<longrightarrow>
                signals (fst (authenticate rt st req))
                  = [Fail (message ''User not found'') (Some 404)])
          \<and> (\<forall>e. fn_direct (registrationFn st) req (u, ri) = Rejects e \<longrightarrow>
                signals (fst (authenticate rt st req)) = [Error e])
          \<and> (\<forall>newUser. fn_direct (registrationFn st) req (u, ri) = Resolves (Some newUser) \<longrightarrow>
                signals (fst (authenticate rt st req)) = [Success newUser JUndefined]))
       \<and> (4 \<le> fn_length (registrationFn st) \<longrightarrow>
            CallRegistrationFn u ri True \<in> set (fst (authenticate rt st req))
          \<and> signals (fst (authenticate rt st req))
              = map (\<lambda>c. case c of Conclude err usr info \<Rightarrow>
                            if truthy err then Error err
                            else (case usr of None \<Rightarrow> Fail info None
                                  | Some newUser \<Rightarrow> Success newUser info))
                    (fst (fn_callback (registrationFn st) req (u, ri))))"
proof -
  have run: "authenticate rt st req = registration rt st req (extractor st req)"
    using assms(1,2) by (rule authenticate_create)
  have each: "signals (concat (map concludeRegistration cs))
                = map (\<lambda>c. case c of Conclude err usr info \<Rightarrow>
                              if truthy err then Error err
                              else (case usr of None \<Rightarrow> Fail info None
                                    | Some newUser \<Rightarrow> Success newUser info)) cs" for cs
  proof (induction cs)
    case Nil
    show ?case by simp
  next
    case (Cons c cs)
    then show ?case
      by (cases c) (simp add: signals_append split: option.splits)
  qed
  show ?thesis
    unfolding run using assms(3,4) each
    by (simp add: registration_def Let_def signals_append split: prod.splits awaited.splits option.splits)
qed

theorem registration_dual_invocation_witness:
  "signals (fst (authenticate rt_accepting (st_direct (Some alice)) req_create))
     = [Success alice JUndefined]
   \<and> signals (fst (authenticate rt_accepting (st_callback (Some alice)) req_create))
     = [Success alice greeting]"
proof -
  have ty: "get_type (JObj [(''type'', JStr ''webauthn.create'')]) = Inr (JStr ''webauthn.create'')"
    by simp
  have su: "session_user (extractor (st_direct (Some alice)) req_create) = Some alice"
    by (simp add: sample_defs)
  have su': "session_user (extractor (st_callback (Some alice)) req_create) = Some alice"
    by (simp add: sample_defs)
  have ver: "verifyRegistrationResponse rt_accepting vo = Resolves (Some sample_info)" for vo
    by (simp add: sample_defs)
  have direct: "signals (fst (authenticate rt_accepting (st_direct (Some alice)) req_create))
                  = [Success alice JUndefined]"
    using registration_dual_invocation [OF sample_parse_create ty su ver]
    by (simp add: st_direct_def strategy_with_def register_direct_def)
  have callback: "signals (fst (authenticate rt_accepting (st_callback (Some alice)) req_create))
                    = [Success alice greeting]"
    using registration_dual_invocation [OF sample_parse_create ty su' ver]
    by (simp add: st_callback_def strategy_with_def register_callback_def)
  show ?thesis
    using direct callback by simp
qed

section \<open>Where the code departs from its specification\<close>

text \<open>
  C7. The claim: a lookup function of fewer than 4 parameters that resolves with no
  pairing gives a recoverable failure with status hint 400 and the message
  \<open>Invalid credential\<close>. The code spells the message \<open>Invelid credential\<close>; the
  evaluation below is at an assertion for handle \<open>u2\<close> with no session user.
\<close>

theorem lookup_without_pairing_message:
  "authenticate rt_accepting
     (strategy_with None (login_direct (Resolves None)) (register_direct (Resolves None)))
     (req_get (Some ''u2''))
   = ([CallAuthenticationFn ''AQID'' ''u2'' False,
       Signal (Fail (message ''Invelid credential'') (Some 400))], Resolved)"
  by (simp add: strategy_defs Let_def sample_defs)

lemma lookup_without_pairing:
  assumes "parseClientData rt (clientDataJSON req) = Inr clientData"
    and "get_type clientData = Inr (JStr ''webauthn.get'')"
    and "userHandle req = Some h" and "h \<noteq> []"
    and "session_user (extractor st req) = None \<or> session_user (extractor st req) = Some u \<and> user_id u = h"
    and "fn_length (authenticationFn st) < 4"
    and "fn_direct (authenticationFn st) req (body_id req, h) = Resolves None"
  shows "authenticate rt st req
           = ([CallAuthenticationFn (body_id req) h False,
               Signal (Fail (message ''Invelid credential'') (Some 400))], Resolved)"
  using assms by (auto simp add: authenticate_get authentication_def Let_def)

text \<open>
  C6. The claim: a payload whose client data cannot be decoded is mapped to the fatal
  error signal. In the code the decoding is outside every \<open>try\<close>: the exception ends
  \<open>authenticate\<close> before any signal, and the promise it returned is rejected.
\<close>

theorem malformed_client_data_no_signal:
  "authenticate rt_accepting (st_direct (Some alice)) req_malformed = ([], Rejected syntaxError)"
  by (simp add: authenticate_def sample_defs)

lemma undecodable_client_data:
  assumes "parseClientData rt (clientDataJSON req) = Inl e"
  shows "authenticate rt st req = ([], Rejected e)"
  using assms by (simp add: authenticate_def)

lemma unreadable_client_data_type:
  assumes "parseClientData rt (clientDataJSON req) = Inr clientData"
    and "get_type clientData = Inl e"
  shows "authenticate rt st req = ([], Rejected e)"
  using assms by (simp add: authenticate_def)

text \<open>
  The registration verifier is awaited outside every \<open>try\<close> as well: when it rejects,
  the run ends after the verifier's call, with no signal.
\<close>

lemma registration_verifier_rejects:
  assumes "parseClientData rt (clientDataJSON req) = Inr clientData"
    and "get_type clientData = Inr (JStr ''webauthn.create'')"
    and "session_user (extractor st req) = Some u"
    and "verifyRegistrationResponse rt (registration_opts st req (challenge (extractor st req)))
           = Rejects e"
  shows "authenticate rt st req
           = ([VerifyRegistration (registration_opts st req (challenge (extractor st req)))],
              Rejected e)"
  using assms by (simp add: authenticate_create registration_def Let_def)

text \<open>
  C8. The claim: whenever the type field of the decoded client data is neither
  \<open>webauthn.create\<close> nor \<open>webauthn.get\<close>, the run is a recoverable failure with status
  hint 400 whose message contains the type. The unsupported branch does so for every
  type field that has a string form (\<open>unsupported_type_fails\<close>). The message is built by
  string concatenation outside every \<open>try\<close>, and for client data
  \<open>{"type":{"toString":1}}\<close> the concatenation throws a \<open>TypeError\<close>: the run ends
  without any signal, and the promise is rejected.
\<close>

theorem unsupported_type_without_string_form:
  "get_type (JObj [(''type'', JObj [(''toString'', JNum ''1'')])])
     = Inr (JObj [(''toString'', JNum ''1'')])
   \<and> authenticate rt_accepting (st_direct (Some alice)) req_object_type
     = ([], Rejected (typeError ''Cannot convert object to primitive value''))"
  by (simp add: authenticate_def unsupported_def sample_defs)

text \<open>
  C4. The claim: when a pairing has been resolved and the verifier throws, the fatal
  error signal carries the thrown value and the value is logged, with a lookup function
  of either calling convention. The callback convention does both
  (\<open>verifier_throws_callback\<close>). With a lookup function of fewer than 4 parameters
  the error signal is emitted but nothing is logged; the evaluation below is at an
  assertion for handle \<open>u2\<close> with no session user.
\<close>

theorem verifier_throws_direct_not_logged:
  "signals (fst (authenticate rt_throwing (st_direct None) (req_get (Some ''u2''))))
     = [Error verifier_failure]
   \<and> ConsoleError verifier_failure
       \<notin> set (fst (authenticate rt_throwing (st_direct None) (req_get (Some ''u2''))))"
  by (simp add: strategy_defs Let_def sample_defs)

lemma verifier_throws_callback:
  assumes "\<not> truthy err"
    and "verifyAuthenticationResponse rt (authentication_opts st req chal (authenticator p))
           = Rejects e"
  shows "concludeAuthentication rt st req chal (Conclude err (Some p) info)
           = [VerifyAuthentication (authentication_opts st req chal (authenticator p)),
              ConsoleError e, Signal (Error e)]"
  using assms by (simp add: concludeAuthentication_def)

lemma verifier_throws_direct:
  assumes "parseClientData rt (clientDataJSON req) = Inr clientData"
    and "get_type clientData = Inr (JStr ''webauthn.get'')"
    and "userHandle req = Some h" and "h \<noteq> []"
    and "session_user (extractor st req) = None"
    and "fn_length (authenticationFn st) < 4"
    and "fn_direct (authenticationFn st) req (body_id req, h) = Resolves (Some p)"
    and "verifyAuthenticationResponse rt
           (authentication_opts st req (challenge (extractor st req)) (authenticator p))
           = Rejects e"
  shows "authenticate rt st req
           = ([CallAuthenticationFn (body_id req) h False,
               VerifyAuthentication
                 (authentication_opts st req (challenge (extractor st req)) (authenticator p)),
               Signal (Error e)], Resolved)"
  using assms by (simp add: authenticate_get authentication_def Let_def)

section \<open>The shape of a run\<close>

lemma concludeRegistration_events:
  "e \<in> set (concat (map concludeRegistration cs)) \<Longrightarrow> \<exists>s. e = Signal s"
proof (induction cs)
  case Nil
  then show ?case by simp
next
  case (Cons c cs)
  then show ?case
    by (cases c) (auto split: if_splits option.splits)
qed

lemma concludeAuthentication_start_events:
  "e \<in> set (concat (map (concludeAuthentication_start st req chal) cs))
     \<Longrightarrow> (\<exists>s. e = Signal s) \<or> (\<exists>vo. e = VerifyAuthentication vo)"
proof (induction cs)
  case Nil
  then show ?case by simp
next
  case (Cons c cs)
  then show ?case
    by (cases c) (auto split: if_splits option.splits)
qed

lemma concludeAuthentication_resume_event:
  assumes "e \<in> set (concludeAuthentication_resume rt st req chal c)"
  shows "(\<exists>s. e = Signal s) \<or> (\<exists>x. e = ConsoleError x)"
proof (cases c)
  case (Conclude err uwa info)
  show ?thesis
  proof (cases uwa)
    case None
    with assms Conclude show ?thesis by (simp split: if_splits)
  next
    case (Some p)
    with assms Conclude show ?thesis
      by (cases "verifyAuthenticationResponse rt (authentication_opts st req chal (authenticator p))")
         (auto split: if_splits)
  qed
qed

lemma concludeAuthentication_resume_events:
  assumes "e \<in> set (concat (map (concludeAuthentication_resume rt st req chal) cs))"
  shows "(\<exists>s. e = Signal s) \<or> (\<exists>x. e = ConsoleError x)"
proof -
  from assms obtain c where "e \<in> set (concludeAuthentication_resume rt st req chal c)"
    by auto
  then show ?thesis
    by (rule concludeAuthentication_resume_event)
qed

text \<open>The runs of the registration branch, by the point at which they end.\<close>

lemma registration_shape:
  "fst (registration rt st req sd)
     = [Signal (Fail (message ''User not in session'') (Some 404))]
   \<or> (fst (registration rt st req sd)
         = [VerifyRegistration (registration_opts st req (challenge sd))]
       \<and> (\<forall>r. verifyRegistrationResponse rt (registration_opts st req (challenge sd))
                 \<noteq> Resolves r))
   \<or> fst (registration rt st req sd)
        = [VerifyRegistration (registration_opts st req (challenge sd)),
           Signal (Fail (message ''Registration failed.'') (Some 500))]
   \<or> (\<exists>u ri. fn_direct (registrationFn st) req (u, ri) = Never
         \<and> fst (registration rt st req sd)
             = [VerifyRegistration (registration_opts st req (challenge sd)),
                CallRegistrationFn u ri False])
   \<or> (\<exists>u ri s. (\<forall>info status. s = Fail info status \<longrightarrow> has_message_and_hint info status)
         \<and> fst (registration rt st req sd)
             = [VerifyRegistration (registration_opts st req (challenge sd)),
                CallRegistrationFn u ri False, Signal s])
   \<or> (\<exists>u ri. fst (registration rt st req sd)
             = [VerifyRegistration (registration_opts st req (challenge sd)),
                CallRegistrationFn u ri True]
               @ concat (map concludeRegistration
                           (fst (fn_callback (registrationFn st) req (u, ri)))))"
  by (auto simp add: registration_def Let_def split_beta has_message_and_hint_def message_def
           split: option.splits awaited.splits)

text \<open>The runs of the authentication branch, by the point at which they end.\<close>

lemma authentication_shape:
  "(\<exists>info. has_message_and_hint info (Some 400)
       \<and> fst (authentication rt st req sd) = [Signal (Fail info (Some 400))])
   \<or> (\<exists>cid ident. fn_direct (authenticationFn st) req (cid, ident) = Never
         \<and> fst (authentication rt st req sd) = [CallAuthenticationFn cid ident False])
   \<or> (\<exists>cid ident s. (\<forall>info status. s = Fail info status \<longrightarrow> has_message_and_hint info status)
         \<and> fst (authentication rt st req sd) = [CallAuthenticationFn cid ident False, Signal s])
   \<or> (\<exists>cid ident vo. verifyAuthenticationResponse rt vo = Never
         \<and> fst (authentication rt st req sd)
             = [CallAuthenticationFn cid ident False, VerifyAuthentication vo])
   \<or> (\<exists>cid ident vo s.
         (\<forall>info status. s = Fail info status \<longrightarrow> has_message_and_hint info status)
         \<and> fst (authentication rt st req sd)
             = [CallAuthenticationFn cid ident False, VerifyAuthentication vo, Signal s])
   \<or> (\<exists>cid ident.
         fst (authentication rt st req sd)
           = CallAuthenticationFn cid ident True
             # concat (map (concludeAuthentication_start st req (challenge sd))
                         (fst (fn_callback (authenticationFn st) req (cid, ident))))
             @ concat (map (concludeAuthentication_resume rt st req (challenge sd))
                         (fst (fn_callback (authenticationFn st) req (cid, ident)))))"
  by (auto simp add: authentication_def Let_def split_beta has_message_and_hint_def message_def
           split: option.splits awaited.splits)

lemma unsupported_shape:
  "fst (unsupported ty) = [] \<and> toStringJS ty = None
   \<or> (\<exists>info. has_message_and_hint info (Some 400)
         \<and> fst (unsupported ty) = [Signal (Fail info (Some 400))])"
  by (auto simp add: unsupported_def has_message_and_hint_def message_def split: option.splits)

text \<open>A run is empty, or the run of one of the three branches.\<close>

lemma authenticate_shape:
  "fst (authenticate rt st req) = []
     \<and> (\<forall>clientData ty. parseClientData rt (clientDataJSON req) = Inr clientData
           \<longrightarrow> get_type clientData = Inr ty \<longrightarrow> toStringJS ty = None)
   \<or> fst (authenticate rt st req) = fst (registration rt st req (extractor st req))
   \<or> fst (authenticate rt st req) = fst (authentication rt st req (extractor st req))
   \<or> (\<exists>info. has_message_and_hint info (Some 400)
         \<and> fst (authenticate rt st req) = [Signal (Fail info (Some 400))])"
  using unsupported_shape
  by (auto simp add: authenticate_def Let_def split: sum.splits)

section \<open>Recoverable failures\<close>

lemma fail_of_concludeRegistration:
  assumes "Signal (Fail info status) \<in> set (concat (map concludeRegistration cs))"
  shows "status = None \<and> (\<exists>err. \<not> truthy err \<and> Conclude err None info \<in> set cs)"
  using assms
proof (induction cs)
  case Nil
  then show ?case by simp
next
  case (Cons c cs)
  then show ?case
    by (cases c) (auto split: if_splits option.splits)
qed

lemma concludeRegistration_passes_info:
  assumes "\<not> truthy err" and "Conclude err None info \<in> set cs"
  shows "Signal (Fail info None) \<in> set (concat (map concludeRegistration cs))"
proof -
  from assms(1) have "Signal (Fail info None) \<in> set (concludeRegistration (Conclude err None info))"
    by simp
  with assms(2) show ?thesis
    by (auto simp del: concludeRegistration.simps)
qed

lemma fail_of_concludeAuthentication_start:
  assumes "Signal (Fail info status)
             \<in> set (concat (map (concludeAuthentication_start st req chal) cs))"
  shows "status = None \<and> (\<exists>err. \<not> truthy err \<and> Conclude err None info \<in> set cs)"
  using assms
proof (induction cs)
  case Nil
  then show ?case by simp
next
  case (Cons c cs)
  then show ?case
    by (cases c) (auto split: if_splits option.splits)
qed

lemma fail_of_concludeAuthentication_resume:
  assumes "Signal (Fail info status)
             \<in> set (concat (map (concludeAuthentication_resume rt st req chal) cs))"
  shows "has_message_and_hint info status"
proof -
  from assms obtain c
    where mem: "Signal (Fail info status) \<in> set (concludeAuthentication_resume rt st req chal c)"
    by auto
  show ?thesis
  proof (cases c)
    case (Conclude err uwa i)
    show ?thesis
    proof (cases uwa)
      case None
      with mem Conclude show ?thesis by (simp split: if_splits)
    next
      case (Some p)
      with mem Conclude show ?thesis
        by (cases "verifyAuthenticationResponse rt (authentication_opts st req chal (authenticator p))")
           (auto simp add: has_message_and_hint_def message_def split: if_splits)
    qed
  qed
qed

lemma concludeAuthentication_passes_info:
  assumes "\<not> truthy err" and "Conclude err None info \<in> set cs"
  shows "Signal (Fail info None)
           \<in> set (concat (map (concludeAuthentication_start st req chal) cs))"
proof -
  from assms(1)
  have "Signal (Fail info None) \<in> set (concludeAuthentication_start st req chal (Conclude err None info))"
    by simp
  with assms(2) show ?thesis
    by (auto simp del: concludeAuthentication_start.simps)
qed

text \<open>What a failure of the registration branch is, and what becomes of a completion.\<close>

lemma registration_failures:
  assumes "Signal (Fail info status) \<in> set (fst (registration rt st req sd))"
  shows "has_message_and_hint info status
         \<or> status = None
           \<and> (\<exists>u ri err. CallRegistrationFn u ri True \<in> set (fst (registration rt st req sd))
                 \<and> \<not> truthy err
                 \<and> Conclude err None info \<in> set (fst (fn_callback (registrationFn st) req (u, ri))))"
  using registration_shape [of rt st req sd]
proof (elim disjE exE conjE)
  fix u ri
  assume run: "fst (registration rt st req sd)
             = [VerifyRegistration (registration_opts st req (challenge sd)),
                CallRegistrationFn u ri True]
               @ concat (map concludeRegistration
                           (fst (fn_callback (registrationFn st) req (u, ri))))"
  with assms
  have "Signal (Fail info status)
          \<in> set (concat (map concludeRegistration
                           (fst (fn_callback (registrationFn st) req (u, ri)))))"
    by simp
  from fail_of_concludeRegistration [OF this] run show ?thesis
    by auto
qed (use assms in \<open>auto simp add: has_message_and_hint_def message_def\<close>)

lemma registration_passes_info:
  assumes "CallRegistrationFn u ri True \<in> set (fst (registration rt st req sd))"
    and "\<not> truthy err"
    and "Conclude err None info \<in> set (fst (fn_callback (registrationFn st) req (u, ri)))"
  shows "Signal (Fail info None) \<in> set (fst (registration rt st req sd))"
  using registration_shape [of rt st req sd]
proof (elim disjE exE conjE)
  fix u' ri'
  assume run: "fst (registration rt st req sd)
             = [VerifyRegistration (registration_opts st req (challenge sd)),
                CallRegistrationFn u' ri' True]
               @ concat (map concludeRegistration
                           (fst (fn_callback (registrationFn st) req (u', ri'))))"
  with assms(1) concludeRegistration_events have "u' = u \<and> ri' = ri"
    by fastforce
  with run concludeRegistration_passes_info [OF assms(2,3)] show ?thesis
    by simp
qed (use assms(1) in auto)

lemma registration_no_lookup:
  "CallAuthenticationFn cid ident b \<notin> set (fst (registration rt st req sd))"
  using registration_shape [of rt st req sd] concludeRegistration_events
  by (elim disjE exE conjE) fastforce+

text \<open>The same for the authentication branch.\<close>

lemma authentication_failures:
  assumes "Signal (Fail info status) \<in> set (fst (authentication rt st req sd))"
  shows "has_message_and_hint info status
         \<or> status = None
           \<and> (\<exists>cid ident err.
                 CallAuthenticationFn cid ident True \<in> set (fst (authentication rt st req sd))
                 \<and> \<not> truthy err
                 \<and> Conclude err None info
                     \<in> set (fst (fn_callback (authenticationFn st) req (cid, ident))))"
  using authentication_shape [of rt st req sd]
proof (elim disjE exE conjE)
  fix cid ident
  assume run: "fst (authentication rt st req sd)
           = CallAuthenticationFn cid ident True
             # concat (map (concludeAuthentication_start st req (challenge sd))
                         (fst (fn_callback (authenticationFn st) req (cid, ident))))
             @ concat (map (concludeAuthentication_resume rt st req (challenge sd))
                         (fst (fn_callback (authenticationFn st) req (cid, ident))))"
  with assms
  consider
    (start) "Signal (Fail info status)
               \<in> set (concat (map (concludeAuthentication_start st req (challenge sd))
                                (fst (fn_callback (authenticationFn st) req (cid, ident)))))"
    | (resume) "Signal (Fail info status)
               \<in> set (concat (map (concludeAuthentication_resume rt st req (challenge sd))
                                (fst (fn_callback (authenticationFn st) req (cid, ident)))))"
    by auto
  then show ?thesis
  proof cases
    case start
    from fail_of_concludeAuthentication_start [OF this] run show ?thesis
      by auto
  next
    case resume
    from fail_of_concludeAuthentication_resume [OF this] show ?thesis
      by simp
  qed
qed (use assms in auto)

lemma authentication_passes_info:
  assumes "CallAuthenticationFn cid ident True \<in> set (fst (authentication rt st req sd))"
    and "\<not> truthy err"
    and "Conclude err None info \<in> set (fst (fn_callback (authenticationFn st) req (cid, ident)))"
  shows "Signal (Fail info None) \<in> set (fst (authentication rt st req sd))"
  using authentication_shape [of rt st req sd]
proof (elim disjE exE conjE)
  fix cid' ident'
  assume run: "fst (authentication rt st req sd)
           = CallAuthenticationFn cid' ident' True
             # concat (map (concludeAuthentication_start st req (challenge sd))
                         (fst (fn_callback (authenticationFn st) req (cid', ident'))))
             @ concat (map (concludeAuthentication_resume rt st req (challenge sd))
                         (fst (fn_callback (authenticationFn st) req (cid', ident'))))"
  with assms(1) concludeAuthentication_start_events concludeAuthentication_resume_events
  have "cid' = cid \<and> ident' = ident"
    by fastforce
  with run concludeAuthentication_passes_info [OF assms(2,3)] show ?thesis
    by simp
qed (use assms(1) in auto)

lemma authentication_no_registration:
  "CallRegistrationFn u ri b \<notin> set (fst (authentication rt st req sd))"
  using authentication_shape [of rt st req sd]
    concludeAuthentication_start_events concludeAuthentication_resume_events
  by (elim disjE exE conjE) fastforce+

text \<open>
  C5, as the code has it. A recoverable failure in a run either carries a message and a
  status hint of 400, 404 or 500, or has no status hint and carries the \<open>info\<close> of a
  completion, with no error and no user, of a developer function that the run has called
  with the completion callback. And every such completion is passed through: the run has
  the failure that carries its \<open>info\<close>, whatever it is, and no status hint.
\<close>

theorem failure_message_and_hint:
  "(\<forall>info status. Signal (Fail info status) \<in> set (fst (authenticate rt st req)) \<longrightarrow>
      has_message_and_hint info status
      \<or> status = None
        \<and> ((\<exists>u ri err. CallRegistrationFn u ri True \<in> set (fst (authenticate rt st req))
                \<and> \<not> truthy err
                \<and> Conclude err None info
                    \<in> set (fst (fn_callback (registrationFn st) req (u, ri))))
           \<or> (\<exists>cid ident err.
                CallAuthenticationFn cid ident True \<in> set (fst (authenticate rt st req))
                \<and> \<not> truthy err
                \<and> Conclude err None info
                    \<in> set (fst (fn_callback (authenticationFn st) req (cid, ident))))))
   \<and> (\<forall>u ri err info.
        CallRegistrationFn u ri True \<in> set (fst (authenticate rt st req)) \<longrightarrow>
        \<not> truthy err \<longrightarrow>
        Conclude err None info \<in> set (fst (fn_callback (registrationFn st) req (u, ri))) \<longrightarrow>
        Signal (Fail info None) \<in> set (fst (authenticate rt st req)))
   \<and> (\<forall>cid ident err info.
        CallAuthenticationFn cid ident True \<in> set (fst (authenticate rt st req)) \<longrightarrow>
        \<not> truthy err \<longrightarrow>
        Conclude err None info \<in> set (fst (fn_callback (authenticationFn st) req (cid, ident))) \<longrightarrow>
        Signal (Fail info None) \<in> set (fst (authenticate rt st req)))"
  using authenticate_shape [of rt st req]
proof (elim disjE exE conjE)
  assume "fst (authenticate rt st req) = []"
  then show ?thesis by simp
next
  assume run: "fst (authenticate rt st req) = fst (registration rt st req (extractor st req))"
  show ?thesis
    unfolding run
    using registration_failures [of _ _ rt st req "extractor st req"]
      registration_passes_info [of _ _ rt st req "extractor st req"]
      registration_no_lookup [of _ _ _ rt st req "extractor st req"]
    by (intro conjI allI impI) blast+
next
  assume run: "fst (authenticate rt st req) = fst (authentication rt st req (extractor st req))"
  show ?thesis
    unfolding run
    using authentication_failures [of _ _ rt st req "extractor st req"]
      authentication_passes_info [of _ _ rt st req "extractor st req"]
      authentication_no_registration [of _ _ _ rt st req "extractor st req"]
    by (intro conjI allI impI) blast+
next
  fix info
  assume "has_message_and_hint info (Some 400)"
    and "fst (authenticate rt st req) = [Signal (Fail info (Some 400))]"
  then show ?thesis by simp
qed

theorem failure_message_and_hint_witness:
  "Signal (Fail JUndefined None)
     \<in> set (fst (authenticate rt_accepting st_incomplete (req_get (Some ''u1''))))
   \<and> has_message_and_hint (message ''Registration failed.'') (Some 500)"
proof -
  let ?rt = "rt_accepting \<lparr> verifyRegistrationResponse := (\<lambda>vo. Resolves None) \<rparr>"
  have call: "CallAuthenticationFn ''AQID'' ''u1'' True
                \<in> set (fst (authenticate rt_accepting st_incomplete (req_get (Some ''u1''))))"
    by (simp add: strategy_defs Let_def sample_defs)
  have err: "\<not> truthy JUndefined"
    by simp
  have completion: "Conclude JUndefined None JUndefined
      \<in> set (fst (fn_callback (authenticationFn st_incomplete) (req_get (Some ''u1''))
                    (''AQID'', ''u1'')))"
    by (simp add: st_incomplete_def strategy_with_def login_callback_def)
  have passed: "Signal (Fail JUndefined None)
     \<in> set (fst (authenticate rt_accepting st_incomplete (req_get (Some ''u1''))))"
    using failure_message_and_hint [of rt_accepting st_incomplete "req_get (Some ''u1'')"]
      call err completion by blast
  have mem: "Signal (Fail (message ''Registration failed.'') (Some 500))
               \<in> set (fst (authenticate ?rt (st_callback (Some alice)) req_create))"
    by (simp add: strategy_defs Let_def sample_defs)
  have "has_message_and_hint (message ''Registration failed.'') (Some 500)"
    using failure_message_and_hint [of ?rt "st_callback (Some alice)" req_create] mem
    by blast
  with passed show ?thesis by simp
qed

text \<open>
  C5, as claimed, fails: a registration function of 4 parameters that completes with
  \<open>conclude(undefined, undefined, undefined)\<close> makes the strategy raise a failure with no
  message and no status hint.
\<close>

theorem callback_failure_without_hint:
  "Signal (Fail JUndefined None) \<in> set (fst (authenticate rt_accepting st_incomplete req_create))
   \<and> \<not> has_message_and_hint JUndefined None"
  by (simp add: strategy_defs Let_def sample_defs has_message_and_hint_def)

section \<open>Counting terminal signals\<close>












text \<open>
  Two completions of the lookup function overlap: the second, an error, is signalled
  while the first is waiting for the verifier.
\<close>

lemma completions_overlap:
  "signals (fst (authenticate rt_accepting st_overlapping (req_get (Some ''u2''))))
     = [Error db_down, Success bob greeting]"
  by (simp add: strategy_defs Let_def sample_defs)

end
